theory Spec2Isabelle
  imports Main "HOL-Library.Word"
begin

unbundle bit_operations_syntax

section \<open>The PSRAM disk of psramdisk.c\<close>

text \<open>
  The embedding follows \<^verbatim>\<open>src/stm32/COLDCARD_MK4/psramdisk.c\<close>. The processor is a
  32-bit ARM: \<^verbatim>\<open>uint32_t\<close>, \<^verbatim>\<open>size_t\<close>, \<^verbatim>\<open>DWORD\<close> and pointers are \<open>32 word\<close>,
  \<^verbatim>\<open>uint16_t\<close> is \<open>16 word\<close>, \<^verbatim>\<open>uint8_t\<close> is \<open>8 word\<close>. Status codes returned as
  \<^verbatim>\<open>int8_t\<close> or \<^verbatim>\<open>int\<close> only take the values written in the source and are \<open>int\<close>.

  The address space is a function from addresses to bytes. A buffer handed in by a
  caller (\<^verbatim>\<open>uint8_t *buf\<close>) is an object of its own, disjoint from the PSRAM window,
  given by its contents: \<open>buf i\<close> is the byte \<^verbatim>\<open>buf[i]\<close>.
\<close>

type_synonym byte = "8 word"
type_synonym addr = "32 word"
type_synonym memory = "addr \<Rightarrow> byte"
type_synonym buffer = "nat \<Rightarrow> byte"

subsection \<open>Geometry (lines 24-28)\<close>

definition PSRAM_BASE :: addr where
  "PSRAM_BASE = 0x90000000"

definition PSRAM_SIZE :: "32 word" where
  "PSRAM_SIZE = 0x800000"

definition BLOCK_SIZE :: "32 word" where
  "BLOCK_SIZE = 512"

definition BLOCK_COUNT :: "32 word" where
  "BLOCK_COUNT = 16384"

text \<open>An address lies in the PSRAM window \<open>[PSRAM_BASE, PSRAM_BASE + PSRAM_SIZE)\<close>.\<close>

definition in_region :: "addr \<Rightarrow> bool" where
  "in_region a = (a - PSRAM_BASE < PSRAM_SIZE)"

subsection \<open>memcpy and memset\<close>

text \<open>
  \<^verbatim>\<open>memcpy(buf, ptr, n)\<close> from the address space into a caller's buffer,
  \<^verbatim>\<open>memcpy(ptr, buf, n)\<close> from a caller's buffer into the address space, and
  \<^verbatim>\<open>memset(ptr, c, n)\<close>. The count is a \<^verbatim>\<open>size_t\<close>; addresses wrap at \<open>2^32\<close>.
\<close>

definition memcpy_to_buf :: "buffer \<Rightarrow> memory \<Rightarrow> addr \<Rightarrow> 32 word \<Rightarrow> buffer" where
  "memcpy_to_buf buf mem src n = (\<lambda>i. if i < unat n then mem (src + of_nat i) else buf i)"

definition memcpy_to_mem :: "memory \<Rightarrow> addr \<Rightarrow> buffer \<Rightarrow> 32 word \<Rightarrow> memory" where
  "memcpy_to_mem mem dst buf n = (\<lambda>a. if a - dst < n then buf (unat (a - dst)) else mem a)"

definition memset_mem :: "memory \<Rightarrow> addr \<Rightarrow> byte \<Rightarrow> 32 word \<Rightarrow> memory" where
  "memset_mem mem dst c n = (\<lambda>a. if a - dst < n then c else mem a)"

subsection \<open>The address validator (lines 47-56)\<close>

text \<open>
  \<^verbatim>\<open>NULL\<close> is \<open>None\<close>. The \<^verbatim>\<open>uint16_t\<close> count is promoted and multiplied in 32 bits.
\<close>

definition block_to_ptr :: "32 word \<Rightarrow> 16 word \<Rightarrow> addr option" where
  "block_to_ptr blk num_blk =
     (if blk \<ge> BLOCK_COUNT then None
      else if blk + (ucast num_blk * BLOCK_SIZE) \<ge> BLOCK_COUNT then None
      else Some (PSRAM_BASE + blk * BLOCK_SIZE))"

subsection \<open>SCSI read and write (lines 58, 212-238)\<close>

definition psram_msc_lu_num :: "8 word" where
  "psram_msc_lu_num = 1"

definition psram_msc_Read :: "8 word \<Rightarrow> buffer \<Rightarrow> 32 word \<Rightarrow> 16 word \<Rightarrow> memory \<Rightarrow> int \<times> buffer" where
  "psram_msc_Read lun buf blk_addr blk_len mem =
     (if lun \<ge> psram_msc_lu_num then (-1, buf)
      else case block_to_ptr blk_addr blk_len of
             None \<Rightarrow> (-1, buf)
           | Some ptr \<Rightarrow> (0, memcpy_to_buf buf mem ptr (ucast blk_len * BLOCK_SIZE)))"

definition psram_msc_Write :: "8 word \<Rightarrow> buffer \<Rightarrow> 32 word \<Rightarrow> 16 word \<Rightarrow> memory \<Rightarrow> int \<times> memory" where
  "psram_msc_Write lun buf blk_addr blk_len mem =
     (if lun \<ge> psram_msc_lu_num then (-1, mem)
      else case block_to_ptr blk_addr blk_len of
             None \<Rightarrow> (-1, mem)
           | Some ptr \<Rightarrow> (0, memcpy_to_mem mem ptr buf (ucast blk_len * BLOCK_SIZE)))"

subsection \<open>Logical-unit flags (lines 32-36, 58-71)\<close>

definition FLAGS_STARTED :: "8 word" where
  "FLAGS_STARTED = 0x01"

definition FLAGS_READONLY :: "8 word" where
  "FLAGS_READONLY = 0x02"

text \<open>
  \<^verbatim>\<open>psram_msc_lu_flags\<close> is a static \<^verbatim>\<open>uint16_t\<close> with no initialiser: it starts at zero.
  The handlers take the flags word and return it with their status.
\<close>

definition initial_lu_flags :: "16 word" where
  "initial_lu_flags = 0"

text \<open>
  \<^verbatim>\<open>flag << (lun * 2)\<close> is computed in \<^verbatim>\<open>int\<close> (32 bits); the compound assignments
  convert the result back to 16 bits. The handlers only reach these with \<open>lun = 0\<close>.
\<close>

definition flag_shifted :: "8 word \<Rightarrow> 8 word \<Rightarrow> 32 word" where
  "flag_shifted lun flag = push_bit (unat lun * 2) (ucast flag)"

definition lu_flag_set :: "8 word \<Rightarrow> 8 word \<Rightarrow> 16 word \<Rightarrow> 16 word" where
  "lu_flag_set lun flag flags = ucast ((ucast flags :: 32 word) OR flag_shifted lun flag)"

definition lu_flag_clr :: "8 word \<Rightarrow> 8 word \<Rightarrow> 16 word \<Rightarrow> 16 word" where
  "lu_flag_clr lun flag flags = ucast ((ucast flags :: 32 word) AND NOT (flag_shifted lun flag))"

definition lu_flag_is_set :: "8 word \<Rightarrow> 8 word \<Rightarrow> 16 word \<Rightarrow> bool" where
  "lu_flag_is_set lun flag flags = ((ucast flags :: 32 word) AND flag_shifted lun flag \<noteq> 0)"

subsection \<open>Logical-unit handlers (lines 121-130, 165-210, 240-243)\<close>

text \<open>The \<^verbatim>\<open>printf\<close> calls of the handlers write to the console only and are left out.\<close>

definition psram_msc_Init :: "8 word \<Rightarrow> 16 word \<Rightarrow> int \<times> 16 word" where
  "psram_msc_Init lun_in flags =
     (if lun_in \<noteq> 0 then (0, flags)
      else (0, lu_flag_clr 0 FLAGS_READONLY (lu_flag_set 0 FLAGS_STARTED flags)))"

definition psram_msc_GetCapacity :: "8 word \<Rightarrow> int \<times> 32 word \<times> 16 word" where
  "psram_msc_GetCapacity lun = (0, BLOCK_COUNT, ucast BLOCK_SIZE)"

definition psram_msc_IsReady :: "8 word \<Rightarrow> 16 word \<Rightarrow> int \<times> 16 word" where
  "psram_msc_IsReady lun flags =
     (if lun \<ge> psram_msc_lu_num then (-1, flags)
      else (if lu_flag_is_set lun FLAGS_STARTED flags then 0 else -1, flags))"

definition psram_msc_IsWriteProtected :: "8 word \<Rightarrow> 16 word \<Rightarrow> int \<times> 16 word" where
  "psram_msc_IsWriteProtected lun flags =
     (if lun \<ge> psram_msc_lu_num then (-1, flags)
      else (if lu_flag_is_set lun FLAGS_READONLY flags then 1 else 0, flags))"

definition psram_msc_StartStopUnit :: "8 word \<Rightarrow> 8 word \<Rightarrow> 16 word \<Rightarrow> int \<times> 16 word" where
  "psram_msc_StartStopUnit lun started flags =
     (if lun \<ge> psram_msc_lu_num then (-1, flags)
      else if started \<noteq> 0 then (0, lu_flag_set lun FLAGS_STARTED flags)
      else (0, lu_flag_clr lun FLAGS_STARTED flags))"

definition psram_msc_PreventAllowMediumRemoval :: "8 word \<Rightarrow> 8 word \<Rightarrow> 16 word \<Rightarrow> int \<times> 16 word" where
  "psram_msc_PreventAllowMediumRemoval lun param flags = (0, flags)"

definition psram_msc_GetMaxLun :: int where
  "psram_msc_GetMaxLun = uint psram_msc_lu_num - 1"

text \<open>
  The SCSI layer calls the handlers through the table \<^verbatim>\<open>psramdisk_fops\<close> (lines 246-258).
  A call of one of the handlers that take the flags word, and a sequence of such calls.
\<close>

datatype lu_call =
    Init "8 word"
  | IsReady "8 word"
  | IsWriteProtected "8 word"
  | StartStopUnit "8 word" "8 word"
  | PreventAllowMediumRemoval "8 word" "8 word"

fun lu_call_run :: "lu_call \<Rightarrow> 16 word \<Rightarrow> int \<times> 16 word" where
  "lu_call_run (Init lun) flags = psram_msc_Init lun flags"
| "lu_call_run (IsReady lun) flags = psram_msc_IsReady lun flags"
| "lu_call_run (IsWriteProtected lun) flags = psram_msc_IsWriteProtected lun flags"
| "lu_call_run (StartStopUnit lun started) flags = psram_msc_StartStopUnit lun started flags"
| "lu_call_run (PreventAllowMediumRemoval lun param) flags =
     psram_msc_PreventAllowMediumRemoval lun param flags"

fun lu_calls_run :: "lu_call list \<Rightarrow> 16 word \<Rightarrow> 16 word" where
  "lu_calls_run [] flags = flags"
| "lu_calls_run (c # cs) flags = lu_calls_run cs (snd (lu_call_run c flags))"

text \<open>The calls that set the started flag of unit 0, and the call that clears it.\<close>

fun starts_unit0 :: "lu_call \<Rightarrow> bool" where
  "starts_unit0 (Init lun) = (lun = 0)"
| "starts_unit0 (StartStopUnit lun started) = (lun = 0 \<and> started \<noteq> 0)"
| "starts_unit0 _ = False"

fun stops_unit0 :: "lu_call \<Rightarrow> bool" where
  "stops_unit0 (StartStopUnit lun started) = (lun = 0 \<and> started = 0)"
| "stops_unit0 _ = False"

subsection \<open>INQUIRY (lines 91-119, 132-163)\<close>

definition psram_msc_vpd00 :: "byte list" where
  "psram_msc_vpd00 = [0x00, 0x00, 0x00, 2, 0x00, 0x83]"

definition psram_msc_vpd83 :: "byte list" where
  "psram_msc_vpd83 = [0x00, 0x83, 0x00, 0x00]"

text \<open>
  \<^verbatim>\<open>STANDARD_INQUIRY_DATA_LEN\<close> is declared in \<^verbatim>\<open>usbd_msc_scsi.h\<close>, which is not among the
  sources; it is \<open>0x24\<close>, the length of the array, in the USB device library.
\<close>

definition STANDARD_INQUIRY_DATA_LEN :: nat where
  "STANDARD_INQUIRY_DATA_LEN = 0x24"

definition psram_msc_inquiry_data :: "byte list" where
  "psram_msc_inquiry_data =
     [0x00, 0x80, 0x02, 0x02, of_nat (STANDARD_INQUIRY_DATA_LEN - 5), 0x00, 0x00, 0x00]
     @ map of_char ''Coinkite''
     @ map of_char ''COLDCARD''
     @ map of_char ''        ''
     @ map of_char ''4.00''"

text \<open>\<^verbatim>\<open>memcpy(data_out, table, n)\<close> from one of the constant tables.\<close>

definition memcpy_from_list :: "buffer \<Rightarrow> byte list \<Rightarrow> nat \<Rightarrow> buffer" where
  "memcpy_from_list buf xs n = (\<lambda>i. if i < n then xs ! i else buf i)"

text \<open>
  \<^verbatim>\<open>params\<close> is the command block. \<^verbatim>\<open>alloc_len\<close> is declared \<^verbatim>\<open>uint8_t\<close>: the value
  \<^verbatim>\<open>params[3] << 8 | params[4]\<close>, computed in \<^verbatim>\<open>int\<close>, is converted to 8 bits.
\<close>

definition psram_msc_Inquiry :: "8 word \<Rightarrow> buffer \<Rightarrow> buffer \<Rightarrow> int \<times> buffer" where
  "psram_msc_Inquiry lun params data_out =
     (if params 1 AND 1 \<noteq> 0 then
        (let page_code = params 2 in
         if page_code = 0x00 then
           (int (length psram_msc_vpd00),
            memcpy_from_list data_out psram_msc_vpd00 (length psram_msc_vpd00))
         else if page_code = 0x83 then
           (int (length psram_msc_vpd83),
            memcpy_from_list data_out psram_msc_vpd83 (length psram_msc_vpd83))
         else (-1, data_out))
      else if lun \<ge> psram_msc_lu_num then (-1, data_out)
      else
        (let alloc_len :: 8 word =
               ucast (push_bit 8 (ucast (params 3) :: 32 word) OR ucast (params 4));
             len = min (length psram_msc_inquiry_data) (unat alloc_len)
         in (int len, memcpy_from_list data_out psram_msc_inquiry_data len)))"

subsection \<open>The block-device interface for MicroPython (lines 296-395)\<close>

text \<open>
  An object returned to the interpreter is a small integer or \<^verbatim>\<open>None\<close>;
  \<^verbatim>\<open>mp_raise_ValueError\<close> does not return and is the left summand. Its argument is the
  message, \<open>None\<close> for \<^verbatim>\<open>NULL\<close>.
\<close>

datatype mp_obj = MP_OBJ_NEW_SMALL_INT int | mp_const_none

datatype mp_exc = ValueError "string option"

text \<open>
  The handlers are modelled after the interpreter has unpacked their arguments:
  \<^verbatim>\<open>mp_obj_get_int\<close> has produced the machine integer, \<^verbatim>\<open>mp_get_buffer_raise\<close> has filled in
  the buffer's address and length.
\<close>

record mp_buffer_info_t =
  bufinfo_buf :: buffer
  bufinfo_len :: "32 word"

definition psram_readblocks ::
  "32 word \<Rightarrow> mp_buffer_info_t \<Rightarrow> memory \<Rightarrow> (mp_exc + mp_obj) \<times> buffer" where
  "psram_readblocks block_num bufinfo mem =
     (let blk_len :: 16 word = ucast (bufinfo_len bufinfo div BLOCK_SIZE) in
      if blk_len < 1 then (Inl (ValueError None), bufinfo_buf bufinfo)
      else if ucast blk_len * BLOCK_SIZE \<noteq> bufinfo_len bufinfo
        then (Inl (ValueError None), bufinfo_buf bufinfo)
      else case block_to_ptr block_num blk_len of
             None \<Rightarrow> (Inl (ValueError None), bufinfo_buf bufinfo)
           | Some ptr \<Rightarrow>
               (Inr (MP_OBJ_NEW_SMALL_INT 0),
                memcpy_to_buf (bufinfo_buf bufinfo) mem ptr (bufinfo_len bufinfo)))"

definition psram_writeblocks ::
  "32 word \<Rightarrow> mp_buffer_info_t \<Rightarrow> memory \<Rightarrow> (mp_exc + mp_obj) \<times> memory" where
  "psram_writeblocks block_num bufinfo mem =
     (let blk_len :: 16 word = ucast (bufinfo_len bufinfo div BLOCK_SIZE) in
      if blk_len < 1 then (Inl (ValueError None), mem)
      else if ucast blk_len * BLOCK_SIZE \<noteq> bufinfo_len bufinfo
        then (Inl (ValueError None), mem)
      else case block_to_ptr block_num blk_len of
             None \<Rightarrow> (Inl (ValueError None), mem)
           | Some ptr \<Rightarrow>
               (Inr (MP_OBJ_NEW_SMALL_INT 0),
                memcpy_to_mem mem ptr (bufinfo_buf bufinfo) (bufinfo_len bufinfo)))"

text \<open>
  \<^verbatim>\<open>MP_EIO\<close> is declared in \<^verbatim>\<open>py/mperrno.h\<close>, which is not among the sources; it is 5 in
  MicroPython.
\<close>

definition MP_EIO :: int where
  "MP_EIO = 5"

text \<open>
  The raw variants take the count as \<^verbatim>\<open>uint32_t\<close>; the call of \<^verbatim>\<open>block_to_ptr\<close> converts
  it to the \<^verbatim>\<open>uint16_t\<close> parameter, the \<^verbatim>\<open>memcpy\<close> uses all 32 bits.
\<close>

definition direct_psram_read_blocks ::
  "buffer \<Rightarrow> 32 word \<Rightarrow> 32 word \<Rightarrow> memory \<Rightarrow> int \<times> buffer" where
  "direct_psram_read_blocks dest block_num num_blocks mem =
     (case block_to_ptr block_num (ucast num_blocks) of
        None \<Rightarrow> (- MP_EIO, dest)
      | Some ptr \<Rightarrow> (0, memcpy_to_buf dest mem ptr (num_blocks * BLOCK_SIZE)))"

definition direct_psram_write_blocks ::
  "buffer \<Rightarrow> 32 word \<Rightarrow> 32 word \<Rightarrow> memory \<Rightarrow> int \<times> memory" where
  "direct_psram_write_blocks src block_num num_blocks mem =
     (case block_to_ptr block_num (ucast num_blocks) of
        None \<Rightarrow> (- MP_EIO, mem)
      | Some ptr \<Rightarrow> (0, memcpy_to_mem mem ptr src (num_blocks * BLOCK_SIZE)))"

text \<open>
  The values of the \<^verbatim>\<open>MP_BLOCKDEV_IOCTL_*\<close> constants are declared in \<^verbatim>\<open>extmod/vfs.h\<close>,
  which is not among the sources: the command is given by the case of the \<^verbatim>\<open>switch\<close> it
  selects, \<open>IOCTL_OTHER\<close> for the default case. The argument is the \<^verbatim>\<open>mp_int_t\<close> that
  \<^verbatim>\<open>mp_obj_get_int\<close> produced, converted to \<^verbatim>\<open>uint32_t\<close> by the call of \<^verbatim>\<open>block_to_ptr\<close>.
\<close>

datatype ioctl_cmd =
    MP_BLOCKDEV_IOCTL_INIT
  | MP_BLOCKDEV_IOCTL_DEINIT
  | MP_BLOCKDEV_IOCTL_SYNC
  | MP_BLOCKDEV_IOCTL_BLOCK_COUNT
  | MP_BLOCKDEV_IOCTL_BLOCK_SIZE
  | MP_BLOCKDEV_IOCTL_BLOCK_ERASE
  | IOCTL_OTHER

fun psram_ioctl :: "ioctl_cmd \<Rightarrow> 32 word \<Rightarrow> memory \<Rightarrow> mp_obj \<times> memory" where
  "psram_ioctl MP_BLOCKDEV_IOCTL_INIT arg_in mem = (MP_OBJ_NEW_SMALL_INT 0, mem)"
| "psram_ioctl MP_BLOCKDEV_IOCTL_DEINIT arg_in mem = (MP_OBJ_NEW_SMALL_INT 0, mem)"
| "psram_ioctl MP_BLOCKDEV_IOCTL_SYNC arg_in mem = (MP_OBJ_NEW_SMALL_INT 0, mem)"
| "psram_ioctl MP_BLOCKDEV_IOCTL_BLOCK_COUNT arg_in mem =
     (MP_OBJ_NEW_SMALL_INT (uint BLOCK_COUNT), mem)"
| "psram_ioctl MP_BLOCKDEV_IOCTL_BLOCK_SIZE arg_in mem =
     (MP_OBJ_NEW_SMALL_INT (uint BLOCK_SIZE), mem)"
| "psram_ioctl MP_BLOCKDEV_IOCTL_BLOCK_ERASE arg_in mem =
     (case block_to_ptr arg_in 1 of
        None \<Rightarrow> (mp_const_none, mem)
      | Some ptr \<Rightarrow> (MP_OBJ_NEW_SMALL_INT 0, memset_mem mem ptr 0xff BLOCK_SIZE))"
| "psram_ioctl IOCTL_OTHER arg_in mem = (mp_const_none, mem)"

subsection \<open>The filesystem library\<close>

text \<open>
  The FAT library (\<^verbatim>\<open>lib/oofatfs\<close>) is not among the sources. A call of the library is
  recorded in the order it is made, with the arguments that matter here; what the call
  returns is a parameter: \<open>res k\<close> is the \<^verbatim>\<open>FRESULT\<close> of the \<open>k\<close>-th call, \<open>FR_OK\<close> for
  success and \<open>FR_ERR c\<close> for any other code. Console output is recorded the same way.
\<close>

datatype FRESULT = FR_OK | FR_ERR nat

datatype effect =
    Memset addr byte "32 word"
  | F_mkfs
  | F_setlabel string
  | F_mount
  | F_open string
  | F_write string nat
  | F_lseek_CREATE_LINKMAP
  | F_close
  | Print_cannot_create_filesystem
  | Print_slot0 "32 word"
  | Print_num int
  | Print_pair int "32 word" int
  | Print_sector "32 word"

subsection \<open>Wipe and format (lines 414-467)\<close>

text \<open>\<^verbatim>\<open>%02X\<close>: upper-case hexadecimal, padded with zeros to at least two digits.\<close>

definition hex_digit :: "nat \<Rightarrow> char" where
  "hex_digit d = ''0123456789ABCDEF'' ! d"

fun hex_upper :: "nat \<Rightarrow> string" where
  "hex_upper n = (if n < 16 then [hex_digit n] else hex_upper (n div 16) @ [hex_digit (n mod 16)])"

definition fmt_02X :: "nat \<Rightarrow> string" where
  "fmt_02X n = (let s = hex_upper n in replicate (2 - length s) (CHR ''0'') @ s)"

declare hex_upper.simps [simp del]

text \<open>
  \<open>uid\<close> is the 12-byte unique ID at \<^verbatim>\<open>MP_HAL_UNIQUE_ID_ADDRESS\<close> (\<^verbatim>\<open>id\<close> in the source).
  The six \<^verbatim>\<open>%02X\<close> fields of the format: the two sums are computed in \<^verbatim>\<open>int\<close>, after
  promotion of the bytes.
\<close>

definition hex_ident :: "buffer \<Rightarrow> string" where
  "hex_ident uid =
     fmt_02X (unat (uid 11))
     @ fmt_02X (unat (uid 10) + unat (uid 2))
     @ fmt_02X (unat (uid 9))
     @ fmt_02X (unat (uid 8) + unat (uid 0))
     @ fmt_02X (unat (uid 7))
     @ fmt_02X (unat (uid 6))"

text \<open>
  \<^verbatim>\<open>snprintf(fname, sizeof(fname), "ckcc-%02X%02X%02X%02X%02X%02X.txt", ...)\<close> writes at
  most 79 characters into \<^verbatim>\<open>fname[80]\<close>.
\<close>

definition ident_fname :: "buffer \<Rightarrow> string" where
  "ident_fname uid = take 79 (''ckcc-'' @ hex_ident uid @ ''.txt'')"

text \<open>
  \<^verbatim>\<open>f_write(&fp, fname+5, 12, &n)\<close> is handed the 12 bytes that start at \<^verbatim>\<open>fname+5\<close>.
  Only the result of \<^verbatim>\<open>f_mkfs\<close> is looked at.
\<close>

definition psram_wipe_and_setup ::
  "(nat \<Rightarrow> FRESULT) \<Rightarrow> buffer \<Rightarrow> (mp_exc + mp_obj) \<times> effect list" where
  "psram_wipe_and_setup res uid =
     (let wiped = [Memset PSRAM_BASE 0x21 (BLOCK_SIZE * BLOCK_COUNT), F_mkfs] in
      if res 0 \<noteq> FR_OK
        then (Inl (ValueError None), wiped @ [Print_cannot_create_filesystem])
      else
        (let fname = ident_fname uid in
         (Inr mp_const_none,
          wiped @
          [F_setlabel ''COLDCARD'',
           F_open fname, F_write (take 12 (drop 5 fname)) 12, F_close,
           F_open ''serial.txt'', F_write (take 12 (drop 5 fname)) 12, F_close])))"

subsection \<open>Cluster ranges of a file (lines 469-545)\<close>

text \<open>
  The fields of \<^verbatim>\<open>FATFS\<close> that \<^verbatim>\<open>clst2sect\<close> reads, with the types of \<^verbatim>\<open>ff.h\<close>
  (\<^verbatim>\<open>DWORD n_fatent\<close>, \<^verbatim>\<open>DWORD database\<close>, \<^verbatim>\<open>WORD csize\<close>).
\<close>

record FATFS =
  n_fatent :: "32 word"
  database :: "32 word"
  csize :: "16 word"

definition clst2sect :: "FATFS \<Rightarrow> 32 word \<Rightarrow> 32 word" where
  "clst2sect fs clst =
     (let clst = clst - 2 in
      if clst \<ge> n_fatent fs - 2 then 0
      else database fs + ucast (csize fs) * clst)"

text \<open>
  The loop of \<^verbatim>\<open>psram_mmap_file\<close>: \<open>p\<close> is the index of \<^verbatim>\<open>ptr\<close> into \<^verbatim>\<open>mapping\<close>, which
  is given by its contents after \<^verbatim>\<open>f_lseek\<close>.
\<close>

function mmap_loop :: "FATFS \<Rightarrow> (nat \<Rightarrow> 32 word) \<Rightarrow> int \<Rightarrow> int \<Rightarrow> nat \<Rightarrow> effect list" where
  "mmap_loop fs mapping i num_used p =
     (if i < num_used then
        (let num_clusters = sint (mapping p);
             cluster = mapping (p + 1)
         in [Print_pair i cluster num_clusters, Print_sector (clst2sect fs cluster)]
            @ mmap_loop fs mapping (i + 1) num_used (p + 2))
      else [])"
  by pat_completeness auto
termination
  by (relation "measure (\<lambda>(fs, mapping, i, num_used, p). nat (num_used - i))") auto

declare mmap_loop.simps [simp del]

text \<open>
  \<open>res 0\<close>, \<open>res 1\<close> and \<open>res 2\<close> are the results of \<^verbatim>\<open>f_mount\<close>, \<^verbatim>\<open>f_open\<close> and
  \<^verbatim>\<open>f_lseek\<close>; \<open>fs\<close> is the mounted volume.
\<close>

definition psram_mmap_file ::
  "(nat \<Rightarrow> FRESULT) \<Rightarrow> FATFS \<Rightarrow> (nat \<Rightarrow> 32 word) \<Rightarrow> string \<Rightarrow> (mp_exc + mp_obj) \<times> effect list" where
  "psram_mmap_file res fs mapping fname =
     (if res 0 \<noteq> FR_OK then (Inl (ValueError (Some ''unmounted'')), [F_mount])
      else if res 1 \<noteq> FR_OK
        then (Inl (ValueError (Some ''open file'')), [F_mount, F_open fname])
      else if res 2 \<noteq> FR_OK
        then (Inl (ValueError (Some ''lseek'')), [F_mount, F_open fname, F_lseek_CREATE_LINKMAP])
      else
        (let num_used = sint ((mapping 0 - 1) div 2) in
         (Inr mp_const_none,
          [F_mount, F_open fname, F_lseek_CREATE_LINKMAP,
           Print_slot0 (mapping 0), Print_num num_used]
          @ mmap_loop fs mapping 0 num_used 1
          @ [F_close])))"

section \<open>Properties of the validator\<close>

lemma unat_ucast_16_32: "unat (ucast (n :: 16 word) :: 32 word) = unat n"
proof -
  have "unat n < 2 ^ 16"
    using unsigned_less [of n, where 'a = nat] by simp
  then have "unat n < 2 ^ 32"
    by simp
  then show ?thesis
    by (simp add: unsigned_ucast_eq take_bit_nat_eq_self)
qed

lemma unat_count_bytes:
  "unat ((ucast (n :: 16 word) :: 32 word) * BLOCK_SIZE) = unat n * 512"
proof -
  have "unat n < 65536"
    using unsigned_less [of n, where 'a = nat] by simp
  then have "unat n * 512 < 2 ^ 32"
    by simp
  then show ?thesis
    by (simp add: BLOCK_SIZE_def unat_word_ariths unat_ucast_16_32)
qed

lemma unat_lt_65536: "unat (n :: 16 word) < 65536"
  using unsigned_less [of n, where 'a = nat] by simp

lemma block_to_ptr_accepts_iff:
  "(block_to_ptr blk n \<noteq> None) = (unat blk < 16384 \<and> unat blk + unat n * 512 < 16384)"
proof (cases "unat blk < 16384")
  case False
  then show ?thesis
    by (simp add: block_to_ptr_def BLOCK_COUNT_def word_le_nat_alt)
next
  case True
  have "unat n * 512 < 65536 * 512"
    using unat_lt_65536 [of n] by simp
  with True have "unat blk + unat ((ucast n :: 32 word) * BLOCK_SIZE) < 2 ^ 32"
    by (simp add: unat_count_bytes)
  then have "unat (blk + ucast n * BLOCK_SIZE) = unat blk + unat n * 512"
    by (simp add: unat_add_lem [THEN iffD1] unat_count_bytes)
  with True show ?thesis
    by (simp add: block_to_ptr_def BLOCK_COUNT_def word_le_nat_alt)
qed

lemma block_to_ptr_Some:
  "block_to_ptr blk n = Some p \<Longrightarrow> p = PSRAM_BASE + blk * BLOCK_SIZE"
  by (simp add: block_to_ptr_def split: if_splits)

lemma block_to_ptr_bounds:
  assumes "block_to_ptr blk n = Some p"
  shows "unat blk < 16384" and "unat blk + unat n * 512 < 16384"
  using assms block_to_ptr_accepts_iff [of blk n] by simp_all

lemma span_offsets:
  assumes "block_to_ptr blk n = Some p"
  shows "unat blk * 512 + unat n * 512 \<le> 16384 * 512"
  using block_to_ptr_bounds [OF assms] by simp

lemma span_in_region:
  assumes acc: "block_to_ptr blk n = Some p" and i: "i < unat n * 512"
  shows "in_region (p + of_nat i)" and "unat (p + of_nat i - PSRAM_BASE) = unat blk * 512 + i"
proof -
  have b: "unat blk < 16384" "unat blk + unat n * 512 < 16384"
    using block_to_ptr_bounds [OF acc] by simp_all
  have p: "p = PSRAM_BASE + blk * BLOCK_SIZE"
    using acc by (rule block_to_ptr_Some)
  have off: "p + of_nat i - PSRAM_BASE = blk * 512 + of_nat i"
    by (simp add: p BLOCK_SIZE_def)
  have "unat (blk * 512) = unat blk * 512"
    using b by (simp add: unat_word_ariths)
  moreover have "unat (of_nat i :: 32 word) = i"
    using b i by (simp add: unat_of_nat)
  ultimately show u: "unat (p + of_nat i - PSRAM_BASE) = unat blk * 512 + i"
    using b i by (simp add: off unat_word_ariths)
  then show "in_region (p + of_nat i)"
    using b i by (simp add: in_region_def PSRAM_SIZE_def word_less_nat_alt)
qed


text \<open>
  Claim C1. The validator accepts a request exactly when the block index is below
  \<open>BLOCK_COUNT\<close> and the index plus the count times \<open>BLOCK_SIZE\<close> is below \<open>BLOCK_COUNT\<close>.
  For an accepted request the pointer is \<open>PSRAM_BASE + blk * BLOCK_SIZE\<close> and every byte
  of the span of \<open>n * BLOCK_SIZE\<close> bytes that starts there lies in the PSRAM window, at
  offset \<open>blk * BLOCK_SIZE + i\<close>. For a rejected request the SCSI read and write fail
  and leave the caller's buffer and the memory as they were.
\<close>

theorem block_to_ptr_validates:
  "(block_to_ptr blk n \<noteq> None) =
     (unat blk < unat BLOCK_COUNT \<and> unat blk + unat n * unat BLOCK_SIZE < unat BLOCK_COUNT)
   \<and> (\<forall>p. block_to_ptr blk n = Some p \<longrightarrow>
          p = PSRAM_BASE + blk * BLOCK_SIZE
          \<and> unat blk * unat BLOCK_SIZE + unat n * unat BLOCK_SIZE
              \<le> unat BLOCK_COUNT * unat BLOCK_SIZE
          \<and> (\<forall>i < unat n * unat BLOCK_SIZE.
                in_region (p + of_nat i)
                \<and> unat (p + of_nat i - PSRAM_BASE) = unat blk * unat BLOCK_SIZE + i))
   \<and> (block_to_ptr blk n = None \<longrightarrow>
          psram_msc_Read lun buf blk n mem = (-1, buf)
          \<and> psram_msc_Write lun buf blk n mem = (-1, mem))"
proof -
  have c: "unat BLOCK_COUNT = 16384" "unat BLOCK_SIZE = 512"
    by (simp_all add: BLOCK_COUNT_def BLOCK_SIZE_def)
  have "(block_to_ptr blk n \<noteq> None) =
     (unat blk < unat BLOCK_COUNT \<and> unat blk + unat n * unat BLOCK_SIZE < unat BLOCK_COUNT)"
    unfolding c by (rule block_to_ptr_accepts_iff)
  moreover have "p = PSRAM_BASE + blk * BLOCK_SIZE
          \<and> unat blk * unat BLOCK_SIZE + unat n * unat BLOCK_SIZE
              \<le> unat BLOCK_COUNT * unat BLOCK_SIZE
          \<and> (\<forall>i < unat n * unat BLOCK_SIZE.
                in_region (p + of_nat i)
                \<and> unat (p + of_nat i - PSRAM_BASE) = unat blk * unat BLOCK_SIZE + i)"
    if "block_to_ptr blk n = Some p" for p
    unfolding c using block_to_ptr_Some [OF that] span_offsets [OF that] span_in_region [OF that]
    by simp
  moreover have "psram_msc_Read lun buf blk n mem = (-1, buf)
          \<and> psram_msc_Write lun buf blk n mem = (-1, mem)"
    if "block_to_ptr blk n = None"
    using that by (simp add: psram_msc_Read_def psram_msc_Write_def)
  ultimately show ?thesis
    by blast
qed

theorem block_to_ptr_validates_witness:
  "block_to_ptr 100 2 = Some (PSRAM_BASE + 100 * BLOCK_SIZE)
   \<and> in_region (PSRAM_BASE + 100 * BLOCK_SIZE + of_nat 1023)
   \<and> block_to_ptr 16000 1 = None
   \<and> psram_msc_Write 0 (\<lambda>i. 0) 16000 1 (\<lambda>a. 0) = (-1, \<lambda>a. 0)"
proof -
  have a: "block_to_ptr 100 2 = Some (PSRAM_BASE + 100 * BLOCK_SIZE)"
    by (simp add: block_to_ptr_def BLOCK_COUNT_def BLOCK_SIZE_def)
  have r: "block_to_ptr 16000 1 = None"
    by (simp add: block_to_ptr_def BLOCK_COUNT_def BLOCK_SIZE_def)
  have lt: "(1023 :: nat) < unat (2 :: 16 word) * unat BLOCK_SIZE"
    by (simp add: BLOCK_SIZE_def)
  have "\<forall>i < unat (2 :: 16 word) * unat BLOCK_SIZE.
          in_region (PSRAM_BASE + 100 * BLOCK_SIZE + of_nat i)"
    using block_to_ptr_validates [of 100 2 0 "\<lambda>i. 0" "\<lambda>a. 0"] a by simp
  with lt have "in_region (PSRAM_BASE + 100 * BLOCK_SIZE + of_nat 1023)"
    by blast
  moreover have "psram_msc_Write 0 (\<lambda>i. 0) 16000 1 (\<lambda>a. 0) = (-1, \<lambda>a. 0)"
    using block_to_ptr_validates [of 16000 1 0 "\<lambda>i. 0" "\<lambda>a. 0"] r by simp
  ultimately show ?thesis
    using a r by simp
qed

section \<open>SCSI write followed by read\<close>

lemma unat_of_nat_below:
  "i < unat (n :: 32 word) \<Longrightarrow> unat (of_nat i :: 32 word) = i"
  using unsigned_less [of n, where 'a = nat] by (simp add: unat_of_nat)

lemma memcpy_to_mem_inside:
  assumes "i < unat n"
  shows "memcpy_to_mem mem dst buf n (dst + of_nat i) = buf i"
  using assms unat_of_nat_below [OF assms]
  by (simp add: memcpy_to_mem_def word_less_nat_alt)

lemma memcpy_to_mem_outside:
  "\<not> a - dst < n \<Longrightarrow> memcpy_to_mem mem dst buf n a = mem a"
  by (simp add: memcpy_to_mem_def)

lemma memcpy_to_buf_inside:
  "i < unat n \<Longrightarrow> memcpy_to_buf buf mem src n i = mem (src + of_nat i)"
  by (simp add: memcpy_to_buf_def)

lemma memcpy_to_buf_outside:
  "\<not> i < unat n \<Longrightarrow> memcpy_to_buf buf mem src n i = buf i"
  by (simp add: memcpy_to_buf_def)

text \<open>
  Claim C2. On the supported unit, for a block range the validator accepts and a
  pattern \<open>P\<close> (the contents of the source buffer), the SCSI write succeeds, the SCSI
  read of the same range from the memory it leaves succeeds, and the bytes it returns
  are those of \<open>P\<close>; the rest of the destination buffer is as it was.
\<close>

theorem msc_write_then_read:
  assumes lun: "lun < psram_msc_lu_num"
    and acc: "block_to_ptr blk n \<noteq> None"
  shows "fst (psram_msc_Write lun P blk n mem) = 0
    \<and> fst (psram_msc_Read lun buf blk n (snd (psram_msc_Write lun P blk n mem))) = 0
    \<and> (\<forall>i < unat n * unat BLOCK_SIZE.
          snd (psram_msc_Read lun buf blk n (snd (psram_msc_Write lun P blk n mem))) i = P i)
    \<and> (\<forall>i \<ge> unat n * unat BLOCK_SIZE.
          snd (psram_msc_Read lun buf blk n (snd (psram_msc_Write lun P blk n mem))) i = buf i)"
proof -
  from acc obtain p where p: "block_to_ptr blk n = Some p"
    by blast
  define len :: "32 word" where "len = ucast n * BLOCK_SIZE"
  have "unat BLOCK_SIZE = 512"
    by (simp add: BLOCK_SIZE_def)
  then have len: "unat len = unat n * unat BLOCK_SIZE"
    by (simp add: len_def unat_count_bytes)
  have w: "psram_msc_Write lun P blk n mem = (0, memcpy_to_mem mem p P len)"
    using lun p by (simp add: psram_msc_Write_def len_def)
  have r: "psram_msc_Read lun buf blk n mem' = (0, memcpy_to_buf buf mem' p len)" for mem'
    using lun p by (simp add: psram_msc_Read_def len_def)
  have "memcpy_to_buf buf (memcpy_to_mem mem p P len) p len i = P i" if "i < unat len" for i
    using that by (simp add: memcpy_to_buf_inside memcpy_to_mem_inside)
  moreover have "memcpy_to_buf buf (memcpy_to_mem mem p P len) p len i = buf i"
    if "unat len \<le> i" for i
    using that by (simp add: memcpy_to_buf_outside)
  ultimately show ?thesis
    by (simp add: w r len)
qed

theorem msc_write_then_read_witness:
  "snd (psram_msc_Read 0 (\<lambda>i. 0) 3 2
          (snd (psram_msc_Write 0 (\<lambda>i. of_nat i) 3 2 (\<lambda>a. 0xEE)))) 700 = 0xBC"
proof -
  have "(0 :: 8 word) < psram_msc_lu_num"
    by (simp add: psram_msc_lu_num_def)
  moreover have "block_to_ptr 3 2 \<noteq> None"
    by (simp add: block_to_ptr_def BLOCK_COUNT_def BLOCK_SIZE_def)
  moreover have "(700 :: nat) < unat (2 :: 16 word) * unat BLOCK_SIZE"
    by (simp add: BLOCK_SIZE_def)
  ultimately have "snd (psram_msc_Read 0 (\<lambda>i. 0) 3 2
          (snd (psram_msc_Write 0 (\<lambda>i. of_nat i) 3 2 (\<lambda>a. 0xEE)))) 700 = of_nat 700"
    using msc_write_then_read [of 0 3 2 "\<lambda>i. of_nat i" "\<lambda>a. 0xEE" "\<lambda>i. 0"] by blast
  then show ?thesis
    by simp
qed

section \<open>Erase and the length check of the block-device interface\<close>

lemma memset_mem_inside:
  assumes "i < unat n"
  shows "memset_mem mem dst c n (dst + of_nat i) = c"
  using assms unat_of_nat_below [OF assms]
  by (simp add: memset_mem_def word_less_nat_alt)

lemma memset_mem_outside:
  "\<not> a - dst < n \<Longrightarrow> memset_mem mem dst c n a = mem a"
  by (simp add: memset_mem_def)

text \<open>
  Claim C8. The erase command accepts a block index exactly when the validator accepts
  it for one block. It then returns the small integer 0, every one of the \<open>BLOCK_SIZE\<close>
  bytes of the block at \<open>PSRAM_BASE + arg_in * BLOCK_SIZE\<close> is \<open>0xFF\<close>, and every other byte
  is as before. For a rejected index it returns \<^verbatim>\<open>None\<close> and the memory is unchanged.
\<close>

theorem ioctl_block_erase:
  "(block_to_ptr arg_in 1 \<noteq> None) = (unat arg_in + unat BLOCK_SIZE < unat BLOCK_COUNT)
   \<and> (\<forall>p. block_to_ptr arg_in 1 = Some p \<longrightarrow>
          p = PSRAM_BASE + arg_in * BLOCK_SIZE
          \<and> fst (psram_ioctl MP_BLOCKDEV_IOCTL_BLOCK_ERASE arg_in mem) = MP_OBJ_NEW_SMALL_INT 0
          \<and> (\<forall>i < unat BLOCK_SIZE.
                snd (psram_ioctl MP_BLOCKDEV_IOCTL_BLOCK_ERASE arg_in mem) (p + of_nat i) = 0xFF)
          \<and> (\<forall>a. \<not> a - p < BLOCK_SIZE \<longrightarrow>
                snd (psram_ioctl MP_BLOCKDEV_IOCTL_BLOCK_ERASE arg_in mem) a = mem a))
   \<and> (block_to_ptr arg_in 1 = None \<longrightarrow>
          psram_ioctl MP_BLOCKDEV_IOCTL_BLOCK_ERASE arg_in mem = (mp_const_none, mem))"
proof -
  have c: "unat BLOCK_COUNT = 16384" "unat BLOCK_SIZE = 512"
    by (simp_all add: BLOCK_COUNT_def BLOCK_SIZE_def)
  have "(block_to_ptr arg_in 1 \<noteq> None) = (unat arg_in + unat BLOCK_SIZE < unat BLOCK_COUNT)"
    unfolding c using block_to_ptr_accepts_iff [of arg_in 1] by auto
  moreover have "p = PSRAM_BASE + arg_in * BLOCK_SIZE
          \<and> fst (psram_ioctl MP_BLOCKDEV_IOCTL_BLOCK_ERASE arg_in mem) = MP_OBJ_NEW_SMALL_INT 0
          \<and> (\<forall>i < unat BLOCK_SIZE.
                snd (psram_ioctl MP_BLOCKDEV_IOCTL_BLOCK_ERASE arg_in mem) (p + of_nat i) = 0xFF)
          \<and> (\<forall>a. \<not> a - p < BLOCK_SIZE \<longrightarrow>
                snd (psram_ioctl MP_BLOCKDEV_IOCTL_BLOCK_ERASE arg_in mem) a = mem a)"
    if "block_to_ptr arg_in 1 = Some p" for p
    using that block_to_ptr_Some [OF that]
    by (simp add: memset_mem_inside memset_mem_outside)
  moreover have "psram_ioctl MP_BLOCKDEV_IOCTL_BLOCK_ERASE arg_in mem = (mp_const_none, mem)"
    if "block_to_ptr arg_in 1 = None"
    using that by simp
  ultimately show ?thesis
    by blast
qed

theorem ioctl_block_erase_witness:
  "psram_ioctl MP_BLOCKDEV_IOCTL_BLOCK_ERASE 15872 (\<lambda>a. 0) = (mp_const_none, \<lambda>a. 0)
   \<and> fst (psram_ioctl MP_BLOCKDEV_IOCTL_BLOCK_ERASE 7 (\<lambda>a. 0)) = MP_OBJ_NEW_SMALL_INT 0
   \<and> snd (psram_ioctl MP_BLOCKDEV_IOCTL_BLOCK_ERASE 7 (\<lambda>a. 0)) (PSRAM_BASE + 7 * BLOCK_SIZE + of_nat 511)
       = 0xFF"
proof -
  have r: "block_to_ptr 15872 1 = None"
    by (simp add: block_to_ptr_def BLOCK_COUNT_def BLOCK_SIZE_def)
  have a: "block_to_ptr 7 1 = Some (PSRAM_BASE + 7 * BLOCK_SIZE)"
    by (simp add: block_to_ptr_def BLOCK_COUNT_def BLOCK_SIZE_def)
  have lt: "(511 :: nat) < unat BLOCK_SIZE"
    by (simp add: BLOCK_SIZE_def)
  have "psram_ioctl MP_BLOCKDEV_IOCTL_BLOCK_ERASE 15872 (\<lambda>a. 0) = (mp_const_none, \<lambda>a. 0)"
    using ioctl_block_erase [of 15872 "\<lambda>a. 0"] r by blast
  moreover have "fst (psram_ioctl MP_BLOCKDEV_IOCTL_BLOCK_ERASE 7 (\<lambda>a. 0)) = MP_OBJ_NEW_SMALL_INT 0"
    using ioctl_block_erase [of 7 "\<lambda>a. 0"] a by blast
  moreover have "\<forall>i < unat BLOCK_SIZE.
      snd (psram_ioctl MP_BLOCKDEV_IOCTL_BLOCK_ERASE 7 (\<lambda>a. 0)) (PSRAM_BASE + 7 * BLOCK_SIZE + of_nat i)
        = 0xFF"
    using ioctl_block_erase [of 7 "\<lambda>a. 0"] a by blast
  ultimately show ?thesis
    using lt by blast
qed

lemma blk_len_times_block_size:
  "unat ((ucast (k :: 16 word) :: 32 word) * BLOCK_SIZE) mod 512 = 0"
  by (simp add: unat_count_bytes)

text \<open>
  Claim C10. When the length of the buffer is zero or not a multiple of \<open>BLOCK_SIZE\<close>,
  \<^verbatim>\<open>readblocks\<close> and \<^verbatim>\<open>writeblocks\<close> raise \<^verbatim>\<open>ValueError\<close>; the buffer and the memory are
  unchanged. The instance that follows is the read into a buffer of 1000 bytes at block 0.
\<close>

theorem blocks_length_check:
  assumes "bufinfo_len bufinfo = 0 \<or> unat (bufinfo_len bufinfo) mod unat BLOCK_SIZE \<noteq> 0"
  shows "psram_readblocks block_num bufinfo mem = (Inl (ValueError None), bufinfo_buf bufinfo)
    \<and> psram_writeblocks block_num bufinfo mem = (Inl (ValueError None), mem)"
proof -
  define blk_len :: "16 word" where "blk_len = ucast (bufinfo_len bufinfo div BLOCK_SIZE)"
  have "blk_len < 1 \<or> ucast blk_len * BLOCK_SIZE \<noteq> bufinfo_len bufinfo"
  proof (cases "bufinfo_len bufinfo = 0")
    case True
    then show ?thesis
      by (simp add: blk_len_def)
  next
    case False
    with assms have "unat (bufinfo_len bufinfo) mod 512 \<noteq> 0"
      by (simp add: BLOCK_SIZE_def)
    then have "ucast blk_len * BLOCK_SIZE \<noteq> bufinfo_len bufinfo"
      using blk_len_times_block_size [of blk_len] by auto
    then show ?thesis ..
  qed
  then show ?thesis
    by (auto simp add: psram_readblocks_def psram_writeblocks_def Let_def blk_len_def)
qed

theorem blocks_length_check_witness:
  "psram_readblocks 0 \<lparr>bufinfo_buf = (\<lambda>i. 0), bufinfo_len = 1000\<rparr> (\<lambda>a. 0x21)
     = (Inl (ValueError None), \<lambda>i. 0)"
proof -
  have "unat (1000 :: 32 word) mod unat BLOCK_SIZE \<noteq> 0"
    by (simp add: BLOCK_SIZE_def)
  then show ?thesis
    using blocks_length_check [of "\<lparr>bufinfo_buf = (\<lambda>i. 0), bufinfo_len = 1000\<rparr>" 0 "\<lambda>a. 0x21"]
    by simp
qed

section \<open>Logical-unit state\<close>

lemma started0_iff: "lu_flag_is_set 0 FLAGS_STARTED flags = bit flags 0"
proof -
  have "lu_flag_is_set 0 FLAGS_STARTED flags = bit (ucast flags :: 32 word) 0"
    by (simp add: lu_flag_is_set_def flag_shifted_def FLAGS_STARTED_def and_one_eq bit_0 odd_iff_mod_2_eq_one)
  then show ?thesis
    by (simp add: bit_ucast_iff)
qed

lemma bit0_lu_flag_set_started: "bit (lu_flag_set 0 FLAGS_STARTED flags) 0"
  by (simp add: lu_flag_set_def flag_shifted_def FLAGS_STARTED_def bit_simps)

lemma bit0_lu_flag_clr_started: "\<not> bit (lu_flag_clr 0 FLAGS_STARTED flags) 0"
  by (simp add: lu_flag_clr_def flag_shifted_def FLAGS_STARTED_def bit_simps)

lemma bit0_lu_flag_clr_readonly:
  "bit (lu_flag_clr 0 FLAGS_READONLY flags) 0 = bit flags 0"
  by (simp add: lu_flag_clr_def flag_shifted_def FLAGS_READONLY_def bit_simps)

lemma unsupported_unit: "lun \<noteq> 0 \<longleftrightarrow> lun \<ge> psram_msc_lu_num"
  by (simp add: psram_msc_lu_num_def word_le_nat_alt unat_eq_0 Suc_le_eq flip: unat_gt_0)

text \<open>
  Claim C4, as amended. Called with a unit index other than 0, no handler changes the
  flags word; \<^verbatim>\<open>IsReady\<close>, \<^verbatim>\<open>IsWriteProtected\<close> and \<^verbatim>\<open>StartStopUnit\<close> return the error \<open>-1\<close>,
  while \<^verbatim>\<open>Init\<close> (by its guard \<^verbatim>\<open>if (lun_in != 0) return 0\<close>) and
  \<^verbatim>\<open>PreventAllowMediumRemoval\<close> (which never looks at the unit) return 0, the success code.
\<close>

theorem unsupported_unit_calls:
  assumes "lun \<noteq> 0"
  shows "psram_msc_IsReady lun flags = (-1, flags)
    \<and> psram_msc_IsWriteProtected lun flags = (-1, flags)
    \<and> psram_msc_StartStopUnit lun started flags = (-1, flags)
    \<and> psram_msc_Init lun flags = (0, flags)
    \<and> psram_msc_PreventAllowMediumRemoval lun param flags = (0, flags)"
proof -
  from assms have "lun \<ge> psram_msc_lu_num"
    by (simp add: unsupported_unit)
  with assms show ?thesis
    by (simp add: psram_msc_IsReady_def psram_msc_IsWriteProtected_def
        psram_msc_StartStopUnit_def psram_msc_Init_def psram_msc_PreventAllowMediumRemoval_def)
qed

theorem unsupported_unit_calls_witness:
  "psram_msc_IsReady 1 3 = (-1, 3)
    \<and> psram_msc_IsWriteProtected 1 3 = (-1, 3)
    \<and> psram_msc_StartStopUnit 1 0 3 = (-1, 3)
    \<and> psram_msc_Init 1 3 = (0, 3)
    \<and> psram_msc_PreventAllowMediumRemoval 1 1 3 = (0, 3)"
proof -
  have "(1 :: 8 word) \<noteq> 0"
    by simp
  then show ?thesis
    by (rule unsupported_unit_calls)
qed

text \<open>
  Claim C4 as stated fails: \<^verbatim>\<open>Init\<close> and \<^verbatim>\<open>PreventAllowMediumRemoval\<close> on unit 1 return 0,
  which is not an error.
\<close>

theorem unsupported_unit_init_counterexample:
  "fst (psram_msc_Init 1 initial_lu_flags) = 0
   \<and> \<not> fst (psram_msc_Init 1 initial_lu_flags) < 0
   \<and> fst (psram_msc_PreventAllowMediumRemoval 1 1 initial_lu_flags) = 0"
  by (simp add: psram_msc_Init_def psram_msc_PreventAllowMediumRemoval_def)

lemma is_ready0: "fst (psram_msc_IsReady 0 flags) = (if bit flags 0 then 0 else -1)"
  by (simp add: psram_msc_IsReady_def psram_msc_lu_num_def started0_iff)

lemma supported_unit: "\<not> lun \<ge> psram_msc_lu_num \<Longrightarrow> lun = 0"
  using unsupported_unit [of lun] by blast

lemma call_starts: "starts_unit0 c \<Longrightarrow> bit (snd (lu_call_run c flags)) 0"
  by (cases c)
    (simp_all add: psram_msc_Init_def psram_msc_StartStopUnit_def psram_msc_lu_num_def
      bit0_lu_flag_set_started bit0_lu_flag_clr_readonly)

lemma call_stops: "stops_unit0 c \<Longrightarrow> \<not> bit (snd (lu_call_run c flags)) 0"
  by (cases c)
    (simp_all add: psram_msc_StartStopUnit_def psram_msc_lu_num_def bit0_lu_flag_clr_started)

lemma call_other:
  assumes "\<not> starts_unit0 c" and "\<not> stops_unit0 c"
  shows "snd (lu_call_run c flags) = flags"
proof (cases c)
  case (StartStopUnit lun started)
  with assms have "lun \<noteq> 0"
    by auto
  then show ?thesis
    using StartStopUnit by (simp add: psram_msc_StartStopUnit_def unsupported_unit)
qed (use assms in \<open>simp_all add: psram_msc_Init_def psram_msc_IsReady_def
      psram_msc_IsWriteProtected_def psram_msc_PreventAllowMediumRemoval_def\<close>)

lemma call_keeps_started:
  "\<not> stops_unit0 c \<Longrightarrow> bit flags 0 \<Longrightarrow> bit (snd (lu_call_run c flags)) 0"
  using call_starts [of c flags] call_other [of c flags] by (cases "starts_unit0 c") simp_all

lemma call_keeps_stopped:
  "\<not> starts_unit0 c \<Longrightarrow> \<not> bit flags 0 \<Longrightarrow> \<not> bit (snd (lu_call_run c flags)) 0"
  using call_stops [of c flags] call_other [of c flags] by (cases "stops_unit0 c") simp_all

lemma calls_keep_started:
  "\<forall>c \<in> set cs. \<not> stops_unit0 c \<Longrightarrow> bit flags 0 \<Longrightarrow> bit (lu_calls_run cs flags) 0"
  by (induction cs arbitrary: flags) (simp_all add: call_keeps_started)

lemma calls_keep_stopped:
  "\<forall>c \<in> set cs. \<not> starts_unit0 c \<Longrightarrow> \<not> bit flags 0 \<Longrightarrow> \<not> bit (lu_calls_run cs flags) 0"
  by (induction cs arbitrary: flags) (simp_all add: call_keeps_stopped)

lemma lu_calls_run_append:
  "lu_calls_run (cs @ ds) flags = lu_calls_run ds (lu_calls_run cs flags)"
  by (induction cs arbitrary: flags) simp_all

text \<open>
  Claim C5. \<^verbatim>\<open>IsReady(0)\<close> returns \<open>-1\<close> (not ready) in the initial state and after any
  sequence of calls from it none of which is \<^verbatim>\<open>Init(0)\<close> or a \<^verbatim>\<open>StartStopUnit(0, started)\<close>
  with \<open>started \<noteq> 0\<close>. After such a call, and any later calls none of which is
  \<^verbatim>\<open>StartStopUnit(0, 0)\<close>, it returns 0 (ready). After a \<^verbatim>\<open>StartStopUnit(0, 0)\<close>, and any later
  calls none of which starts the unit, it returns \<open>-1\<close> again. \<^verbatim>\<open>IsReady\<close> leaves the
  flags word as it is.
\<close>

theorem is_ready_follows_started:
  "fst (psram_msc_IsReady 0 initial_lu_flags) = -1
   \<and> ((\<forall>c \<in> set cs. \<not> starts_unit0 c) \<longrightarrow>
         fst (psram_msc_IsReady 0 (lu_calls_run cs initial_lu_flags)) = -1)
   \<and> (starts_unit0 c \<and> (\<forall>d \<in> set ds. \<not> stops_unit0 d) \<longrightarrow>
         fst (psram_msc_IsReady 0 (lu_calls_run (cs @ c # ds) flags)) = 0)
   \<and> (stops_unit0 c \<and> (\<forall>d \<in> set ds. \<not> starts_unit0 d) \<longrightarrow>
         fst (psram_msc_IsReady 0 (lu_calls_run (cs @ c # ds) flags)) = -1)
   \<and> snd (psram_msc_IsReady lun flags) = flags"
proof -
  have i: "\<not> bit initial_lu_flags 0"
    by (simp add: initial_lu_flags_def)
  have "fst (psram_msc_IsReady 0 (lu_calls_run cs initial_lu_flags)) = -1"
    if "\<forall>c \<in> set cs. \<not> starts_unit0 c"
    using calls_keep_stopped [OF that i] by (simp add: is_ready0)
  moreover have "fst (psram_msc_IsReady 0 (lu_calls_run (cs @ c # ds) flags)) = 0"
    if "starts_unit0 c" "\<forall>d \<in> set ds. \<not> stops_unit0 d"
    using calls_keep_started [OF that(2) call_starts [OF that(1)]]
    by (simp add: is_ready0 lu_calls_run_append)
  moreover have "fst (psram_msc_IsReady 0 (lu_calls_run (cs @ c # ds) flags)) = -1"
    if "stops_unit0 c" "\<forall>d \<in> set ds. \<not> starts_unit0 d"
    using calls_keep_stopped [OF that(2) call_stops [OF that(1)]]
    by (simp add: is_ready0 lu_calls_run_append)
  moreover have "snd (psram_msc_IsReady lun flags) = flags"
    by (simp add: psram_msc_IsReady_def)
  ultimately show ?thesis
    using i by (simp add: is_ready0)
qed

theorem is_ready_follows_started_witness:
  "fst (psram_msc_IsReady 0 (lu_calls_run [IsReady 0, IsWriteProtected 0, Init 1] initial_lu_flags)) = -1
   \<and> fst (psram_msc_IsReady 0
        (lu_calls_run ([IsReady 0] @ Init 0 # [IsReady 0, StartStopUnit 0 1]) initial_lu_flags)) = 0
   \<and> fst (psram_msc_IsReady 0
        (lu_calls_run ([Init 0] @ StartStopUnit 0 0 # [IsReady 0]) initial_lu_flags)) = -1"
proof -
  have "\<forall>c \<in> set [IsReady 0, IsWriteProtected 0, Init 1]. \<not> starts_unit0 c"
    by simp
  moreover have "starts_unit0 (Init 0) \<and> (\<forall>d \<in> set [IsReady 0, StartStopUnit 0 1]. \<not> stops_unit0 d)"
    by simp
  moreover have "stops_unit0 (StartStopUnit 0 0) \<and> (\<forall>d \<in> set [IsReady 0]. \<not> starts_unit0 d)"
    by simp
  ultimately show ?thesis
    using is_ready_follows_started [where cs = "[IsReady 0, IsWriteProtected 0, Init 1]"]
      is_ready_follows_started [where cs = "[IsReady 0]" and c = "Init 0"
        and ds = "[IsReady 0, StartStopUnit 0 1]" and flags = initial_lu_flags]
      is_ready_follows_started [where cs = "[Init 0]" and c = "StartStopUnit 0 0"
        and ds = "[IsReady 0]" and flags = initial_lu_flags]
    by blast
qed

section \<open>Wipe and format\<close>

lemma length_hex_upper_16: "n < 16 \<Longrightarrow> length (hex_upper n) = 1"
  by (subst hex_upper.simps) simp

lemma length_hex_upper_256: "n < 256 \<Longrightarrow> length (hex_upper n) \<le> 2"
  by (subst hex_upper.simps) (simp add: length_hex_upper_16)

lemma length_hex_upper_4096: "n < 4096 \<Longrightarrow> length (hex_upper n) \<le> 3"
  using length_hex_upper_256 [of "n div 16"] by (subst hex_upper.simps) simp

lemma length_fmt_02X_ge: "2 \<le> length (fmt_02X n)"
  by (simp add: fmt_02X_def Let_def)

lemma length_fmt_02X_byte: "n < 256 \<Longrightarrow> length (fmt_02X n) = 2"
  using length_hex_upper_256 [of n] by (simp add: fmt_02X_def Let_def)

lemma length_fmt_02X_sum: "n < 4096 \<Longrightarrow> length (fmt_02X n) \<le> 3"
  using length_hex_upper_4096 [of n] by (simp add: fmt_02X_def Let_def)

lemma unat_byte: "unat (b :: byte) < 256"
  using unsigned_less [of b, where 'a = nat] by simp

lemma length_hex_ident_bounds: "12 \<le> length (hex_ident uid)" "length (hex_ident uid) \<le> 14"
proof -
  have b: "length (fmt_02X (unat (uid k))) = 2" for k
    using unat_byte [of "uid k"] by (rule length_fmt_02X_byte)
  have "unat (uid j) + unat (uid k) < 4096" for j k
    using unat_byte [of "uid j"] unat_byte [of "uid k"] by simp
  then have s: "length (fmt_02X (unat (uid j) + unat (uid k))) \<le> 3" for j k
    by (rule length_fmt_02X_sum)
  show "12 \<le> length (hex_ident uid)"
    using length_fmt_02X_ge [of "unat (uid 10) + unat (uid 2)"]
      length_fmt_02X_ge [of "unat (uid 8) + unat (uid 0)"]
    by (simp add: hex_ident_def b)
  show "length (hex_ident uid) \<le> 14"
    using s [of 10 2] s [of 8 0] by (simp add: hex_ident_def b)
qed

lemma length_hex_ident_12:
  assumes "unat (uid 10) + unat (uid 2) < 256" and "unat (uid 8) + unat (uid 0) < 256"
  shows "length (hex_ident uid) = 12"
proof -
  have "length (fmt_02X (unat (uid k))) = 2" for k
    using unat_byte [of "uid k"] by (rule length_fmt_02X_byte)
  then show ?thesis
    using assms by (simp add: hex_ident_def length_fmt_02X_byte)
qed

lemma ident_fname_eq: "ident_fname uid = ''ckcc-'' @ hex_ident uid @ ''.txt''"
  using length_hex_ident_bounds(2) [of uid] by (simp add: ident_fname_def)

lemma written_bytes: "take 12 (drop 5 (ident_fname uid)) = take 12 (hex_ident uid)"
  using length_hex_ident_bounds(1) [of uid] by (simp add: ident_fname_eq)

text \<open>
  Claim C6, as amended. When \<^verbatim>\<open>f_mkfs\<close> succeeds, \<^verbatim>\<open>psram_wipe_and_setup\<close> returns \<^verbatim>\<open>None\<close>
  whatever the other library calls return; it opens \<^verbatim>\<open>ckcc-<id>.txt\<close> and \<^verbatim>\<open>serial.txt\<close> and
  hands to the write of each the same 12 characters, the first 12 of the identifier. It
  raises \<^verbatim>\<open>ValueError\<close> exactly when \<^verbatim>\<open>f_mkfs\<close> fails. When both byte sums are below 256 the
  identifier has 12 hexadecimal digits and is written whole.
\<close>

theorem wipe_and_setup_seeds:
  "(res 0 = FR_OK \<longrightarrow>
      psram_wipe_and_setup res uid =
        (Inr mp_const_none,
         [Memset PSRAM_BASE 0x21 (BLOCK_SIZE * BLOCK_COUNT), F_mkfs, F_setlabel ''COLDCARD'',
          F_open (''ckcc-'' @ hex_ident uid @ ''.txt''), F_write (take 12 (hex_ident uid)) 12, F_close,
          F_open ''serial.txt'', F_write (take 12 (hex_ident uid)) 12, F_close]))
   \<and> (res 0 \<noteq> FR_OK \<longrightarrow> fst (psram_wipe_and_setup res uid) = Inl (ValueError None))
   \<and> (unat (uid 10) + unat (uid 2) < 256 \<and> unat (uid 8) + unat (uid 0) < 256 \<longrightarrow>
        length (hex_ident uid) = 12 \<and> take 12 (hex_ident uid) = hex_ident uid)"
proof -
  have "psram_wipe_and_setup res uid =
        (Inr mp_const_none,
         [Memset PSRAM_BASE 0x21 (BLOCK_SIZE * BLOCK_COUNT), F_mkfs, F_setlabel ''COLDCARD'',
          F_open (''ckcc-'' @ hex_ident uid @ ''.txt''), F_write (take 12 (hex_ident uid)) 12, F_close,
          F_open ''serial.txt'', F_write (take 12 (hex_ident uid)) 12, F_close])"
    if "res 0 = FR_OK"
    using that by (simp add: psram_wipe_and_setup_def Let_def written_bytes) (simp add: ident_fname_eq)
  moreover have "fst (psram_wipe_and_setup res uid) = Inl (ValueError None)" if "res 0 \<noteq> FR_OK"
    using that by (simp add: psram_wipe_and_setup_def Let_def)
  moreover have "length (hex_ident uid) = 12 \<and> take 12 (hex_ident uid) = hex_ident uid"
    if "unat (uid 10) + unat (uid 2) < 256 \<and> unat (uid 8) + unat (uid 0) < 256"
    using that length_hex_ident_12 [of uid] by simp
  ultimately show ?thesis
    by blast
qed

lemma hex_ident_sample:
  "hex_ident (\<lambda>i. [0x10, 0x47, 0x20, 0x33, 0x39, 0x50, 0x4B, 0x33, 0x0F, 0x00, 0x2A, 0x00] ! i)
     = ''004A001F334B''"
  by (simp add: hex_ident_def fmt_02X_def hex_upper.simps hex_digit_def)

theorem wipe_and_setup_seeds_witness:
  "psram_wipe_and_setup (\<lambda>k. FR_OK)
      (\<lambda>i. [0x10, 0x47, 0x20, 0x33, 0x39, 0x50, 0x4B, 0x33, 0x0F, 0x00, 0x2A, 0x00] ! i) =
        (Inr mp_const_none,
         [Memset PSRAM_BASE 0x21 (BLOCK_SIZE * BLOCK_COUNT), F_mkfs, F_setlabel ''COLDCARD'',
          F_open ''ckcc-004A001F334B.txt'', F_write ''004A001F334B'' 12, F_close,
          F_open ''serial.txt'', F_write ''004A001F334B'' 12, F_close])
   \<and> fst (psram_wipe_and_setup (\<lambda>k. FR_ERR 1) (\<lambda>i. 0)) = Inl (ValueError None)"
  using wipe_and_setup_seeds [of "\<lambda>k. FR_OK"
      "\<lambda>i. [0x10, 0x47, 0x20, 0x33, 0x39, 0x50, 0x4B, 0x33, 0x0F, 0x00, 0x2A, 0x00] ! i"]
    wipe_and_setup_seeds [of "\<lambda>k. FR_ERR 1" "\<lambda>i. 0"]
  by (simp add: hex_ident_sample)

text \<open>
  Claim C6 as stated fails: with both calls of \<^verbatim>\<open>f_write\<close> (the calls number 3 and 6)
  failing, the operation still returns \<^verbatim>\<open>None\<close>.
\<close>

theorem wipe_and_setup_write_failure_counterexample:
  "fst (psram_wipe_and_setup (\<lambda>k. if k = 3 \<or> k = 6 then FR_ERR 1 else FR_OK) (\<lambda>i. 0))
     = Inr mp_const_none"
  by (simp add: psram_wipe_and_setup_def Let_def)

lemma hex_ident_three_digit_field:
  "hex_ident (\<lambda>i. if i = 10 \<or> i = 2 then 0xFF else 0) = ''001FE00000000''
   \<and> take 12 (hex_ident (\<lambda>i. if i = 10 \<or> i = 2 then 0xFF else 0)) = ''001FE0000000''"
  by (simp add: hex_ident_def fmt_02X_def hex_upper.simps hex_digit_def)

section \<open>INQUIRY and the cluster ranges of a file\<close>

lemma alloc_len_low_byte:
  "(ucast (push_bit 8 (ucast (hi :: byte) :: 32 word) OR ucast (lo :: byte)) :: byte) = lo"
  by (rule bit_word_eqI) (auto simp add: bit_simps)

lemma length_vpd: "length psram_msc_vpd00 = 6" "length psram_msc_vpd83 = 4"
  by (simp_all add: psram_msc_vpd00_def psram_msc_vpd83_def)

lemma inquiry_evpd:
  assumes "params 1 AND 1 \<noteq> 0"
  shows "psram_msc_Inquiry lun params data_out =
     (if params 2 = 0x00 then (6, memcpy_from_list data_out psram_msc_vpd00 6)
      else if params 2 = 0x83 then (4, memcpy_from_list data_out psram_msc_vpd83 4)
      else (-1, data_out))"
  using assms by (simp add: psram_msc_Inquiry_def length_vpd)

lemma length_inquiry_data: "length psram_msc_inquiry_data = 36"
  by (simp add: psram_msc_inquiry_data_def)

lemma inquiry_standard:
  assumes "params 1 AND 1 = 0" and "lun < psram_msc_lu_num"
  shows "psram_msc_Inquiry lun params data_out =
     (int (min 36 (unat (params 4))),
      memcpy_from_list data_out psram_msc_inquiry_data (min 36 (unat (params 4))))"
  using assms
  by (simp add: psram_msc_Inquiry_def alloc_len_low_byte length_inquiry_data Let_def not_le [symmetric])

text \<open>
  Claim C9. A standard inquiry on unit 0 whose allocation length field is 256
  (\<^verbatim>\<open>params[3] = 1\<close>, \<^verbatim>\<open>params[4] = 0\<close>) returns length 0 and copies nothing: the 8-bit
  \<^verbatim>\<open>alloc_len\<close> keeps the low byte only. The claim asks for the 36-byte payload, truncated
  to the requested 256 bytes, that is, all of it. The lemmas above give what the handler
  returns otherwise.
\<close>

theorem inquiry_alloc_len_256:
  "push_bit 8 (ucast (0x01 :: byte) :: 32 word) OR ucast (0x00 :: byte) = 256
   \<and> psram_msc_Inquiry 0 (\<lambda>i. [0x12, 0x00, 0x00, 0x01, 0x00, 0x00] ! i) (\<lambda>i. 0xAA)
       = (0, \<lambda>i. 0xAA)"
  by (simp add: psram_msc_Inquiry_def psram_msc_lu_num_def memcpy_from_list_def)

lemma clst2sect_valid:
  assumes "2 \<le> clst" and "clst < n_fatent fs"
  shows "clst2sect fs clst = database fs + ucast (csize fs) * (clst - 2)"
proof -
  from assms have "unat (clst - 2) = unat clst - 2" "unat (n_fatent fs - 2) = unat (n_fatent fs) - 2"
    by (simp_all add: unat_sub word_le_nat_alt word_less_nat_alt)
  with assms have "\<not> clst - 2 \<ge> n_fatent fs - 2"
    by (simp add: word_le_nat_alt word_less_nat_alt)
  then show ?thesis
    by (simp add: clst2sect_def Let_def)
qed

lemma mmap_file_result:
  "fst (psram_mmap_file res fs mapping fname) =
     (if res 0 \<noteq> FR_OK then Inl (ValueError (Some ''unmounted''))
      else if res 1 \<noteq> FR_OK then Inl (ValueError (Some ''open file''))
      else if res 2 \<noteq> FR_OK then Inl (ValueError (Some ''lseek''))
      else Inr mp_const_none)"
  by (simp add: psram_mmap_file_def Let_def)

text \<open>
  Claim C7. For a file of one cluster (link map \<open>[4, 1, 2, 0]\<close>: four slots used, one
  run of length 1 that starts at cluster 2) on a volume whose data area starts at sector
  100, \<^verbatim>\<open>psram_mmap_file\<close> prints the pair and its sector, 100, and returns \<^verbatim>\<open>None\<close>: the
  ranges are not returned to the caller. The lemmas above give the sector of a valid
  cluster, the result in general, and what the loop prints.
\<close>

theorem mmap_file_single_cluster:
  "psram_mmap_file (\<lambda>k. FR_OK) \<lparr>n_fatent = 16000, database = 100, csize = 1\<rparr>
      (\<lambda>i. [4, 1, 2, 0] ! i) ''serial.txt''
     = (Inr mp_const_none,
        [F_mount, F_open ''serial.txt'', F_lseek_CREATE_LINKMAP,
         Print_slot0 4, Print_num 1, Print_pair 0 2 1, Print_sector 100, F_close])"
  by (simp add: psram_mmap_file_def Let_def mmap_loop.simps clst2sect_def)

lemma mmap_loop_prints:
  "mmap_loop fs mapping i num_used p =
     concat (map (\<lambda>k. [Print_pair (i + int k) (mapping (p + 2 * k + 1)) (sint (mapping (p + 2 * k))),
                        Print_sector (clst2sect fs (mapping (p + 2 * k + 1)))])
                 [0..<nat (num_used - i)])"
proof (induction fs mapping i num_used p rule: mmap_loop.induct)
  case (1 fs mapping i num_used p)
  show ?case
  proof (cases "i < num_used")
    case False
    then show ?thesis
      by (subst mmap_loop.simps) simp
  next
    case True
    then have n: "nat (num_used - i) = Suc (nat (num_used - (i + 1)))"
      by simp
    have u: "[0..<Suc m] = 0 # map Suc [0..<m]" for m
      by (simp add: upt_conv_Cons map_Suc_upt del: upt_Suc)
    show ?thesis
      using True "1.IH" [OF True refl refl]
      by (subst mmap_loop.simps) (simp add: n u Let_def comp_def add.assoc del: upt_Suc)
  qed
qed

section \<open>What the bound of the validator allows\<close>

lemma validator_count_at_most_31:
  assumes "block_to_ptr blk n \<noteq> None"
  shows "unat n \<le> 31" and "unat blk + 512 * unat n < 16384"
  using assms block_to_ptr_accepts_iff [of blk n] by simp_all

lemma last_512_blocks_rejected:
  "15872 \<le> unat blk \<Longrightarrow> block_to_ptr blk 1 = None"
  using block_to_ptr_accepts_iff [of blk 1] by simp

lemma advertised_capacity: "psram_msc_GetCapacity lun = (0, 16384, 512)"
  by (simp add: psram_msc_GetCapacity_def BLOCK_COUNT_def BLOCK_SIZE_def)

lemma msc_read_at_most_31_blocks:
  assumes "fst (psram_msc_Read lun buf blk n mem) = 0" and "31 * 512 \<le> i"
  shows "unat n \<le> 31" and "snd (psram_msc_Read lun buf blk n mem) i = buf i"
proof -
  from assms(1) obtain p where p: "block_to_ptr blk n = Some p"
    by (auto simp add: psram_msc_Read_def split: if_splits option.splits)
  then show n: "unat n \<le> 31"
    using validator_count_at_most_31(1) [of blk n] by simp
  with assms(2) have "\<not> i < unat n * 512"
    by simp
  with p assms(1) show "snd (psram_msc_Read lun buf blk n mem) i = buf i"
    by (simp add: psram_msc_Read_def memcpy_to_buf_def unat_count_bytes split: if_splits)
qed

lemma readblocks_at_most_31_blocks:
  assumes "fst (psram_readblocks block_num bufinfo mem) = Inr r"
  shows "unat (bufinfo_len bufinfo) \<le> 31 * 512"
proof -
  define blk_len :: "16 word" where "blk_len = ucast (bufinfo_len bufinfo div BLOCK_SIZE)"
  from assms have l: "ucast blk_len * BLOCK_SIZE = bufinfo_len bufinfo"
    and "block_to_ptr block_num blk_len \<noteq> None"
    by (auto simp add: psram_readblocks_def Let_def blk_len_def split: if_splits option.splits)
  then have "unat blk_len \<le> 31"
    using validator_count_at_most_31(1) [of block_num blk_len] by simp
  moreover have "unat (bufinfo_len bufinfo) = unat blk_len * 512"
    using unat_count_bytes [of blk_len] by (simp add: l)
  ultimately show ?thesis
    by simp
qed

text \<open>
  Claim C3. The validator accepts at most 31 blocks and no single block from index 15872
  on (lemmas above), and the SCSI and \<^verbatim>\<open>readblocks\<close> paths transfer no more than that. The
  raw read of 65536 blocks at block 0 is different: the count is converted to the 16-bit
  parameter of the validator, which sees 0 and accepts, and the copy uses the full count:
  it returns 0, fills the 32nd block of the destination, and reads on past the end of
  the PSRAM window; the raw write likewise stores past the end of the window.
\<close>

theorem direct_read_count_truncated:
  "block_to_ptr 0 (ucast (65536 :: 32 word)) = Some PSRAM_BASE
   \<and> fst (direct_psram_read_blocks (\<lambda>i. 0) 0 65536 (\<lambda>a. if in_region a then 0x21 else 0x99)) = 0
   \<and> snd (direct_psram_read_blocks (\<lambda>i. 0) 0 65536 (\<lambda>a. if in_region a then 0x21 else 0x99))
         (31 * 512) = 0x21
   \<and> snd (direct_psram_read_blocks (\<lambda>i. 0) 0 65536 (\<lambda>a. if in_region a then 0x21 else 0x99))
         (16384 * 512) = 0x99
   \<and> \<not> in_region (PSRAM_BASE + PSRAM_SIZE)
   \<and> snd (direct_psram_write_blocks (\<lambda>i. 0x55) 0 65536 (\<lambda>a. 0)) (PSRAM_BASE + PSRAM_SIZE) = 0x55"
  by (simp add: direct_psram_read_blocks_def direct_psram_write_blocks_def block_to_ptr_def
      memcpy_to_buf_def memcpy_to_mem_def in_region_def
      BLOCK_COUNT_def BLOCK_SIZE_def PSRAM_BASE_def PSRAM_SIZE_def)

end
